theory Spec2Isabelle
  imports Complex_Main "HOL-Library.Sublist" "HOL-Library.Log_Nat"
begin

section \<open>Two-stage text attribution: the decision policy of app.py\<close>

text \<open>
  The theory embeds the module \<^verbatim>\<open>app.py\<close>: the configuration load at import time, the
  ranking helper \<^verbatim>\<open>classify_with_confidence\<close>, the two result builders
  \<^verbatim>\<open>safe_attribution\<close> and \<^verbatim>\<open>human_ai_decision\<close>, and the policy \<^verbatim>\<open>full_classify\<close>.

  Conventions of the embedding:
  \<^item> a Python \<^verbatim>\<open>str\<close> received from the user is a list of Unicode code points;
  \<^item> a decision score is an \<^verbatim>\<open>np.float64\<close>; a finite double is the rational number it
    denotes, and the arithmetic on scores (subtraction, \<^verbatim>\<open>round(x, 3)\<close>) is the arithmetic of
    doubles: the exact result rounded to the nearest double, ties to even, with overflow
    to an infinity. The classifiers return finite scores; the two zeros are one value;
  \<^item> a number of the configuration is a Python \<^verbatim>\<open>int\<close> or a finite \<^verbatim>\<open>float\<close>, a rational
    too; a threshold that is compared with a double is taken to be a double itself (as
    every \<^verbatim>\<open>float\<close> and every \<^verbatim>\<open>int\<close> below \<open>2 ^ 53\<close> is);
  \<^item> the two joblib-loaded classifiers are opaque objects, taken as parameters: records
    of the methods and attributes the module reads;
  \<^item> every call of a classifier method is appended to a trace that is passed through
    the functions, so that "the oracle is not invoked" is a statement about the trace;
  \<^item> an exception is a value \<open>Inl e\<close> of a sum type.
\<close>

subsection \<open>Text\<close>

type_synonym codepoint = nat
type_synonym str = "codepoint list"
type_synonym class_label = string

text \<open>
  The code points that \<^verbatim>\<open>str.strip()\<close> and \<^verbatim>\<open>str.split()\<close> treat as whitespace
  (\<^verbatim>\<open>str.isspace\<close>): U+0009..U+000D, U+001C..U+0020, U+0085, U+00A0, U+1680,
  U+2000..U+200A, U+2028, U+2029, U+202F, U+205F, U+3000.
\<close>

definition is_space :: "codepoint \<Rightarrow> bool" where
  "is_space c \<longleftrightarrow>
     (9 \<le> c \<and> c \<le> 13) \<or> (28 \<le> c \<and> c \<le> 32) \<or> c = 133 \<or> c = 160 \<or> c = 5760 \<or>
     (8192 \<le> c \<and> c \<le> 8202) \<or> c = 8232 \<or> c = 8233 \<or> c = 8239 \<or> c = 8287 \<or> c = 12288"

text \<open>\<^verbatim>\<open>text.strip()\<close>: leading and trailing whitespace removed.\<close>

definition strip :: "str \<Rightarrow> str" where
  "strip s = rev (dropWhile is_space (rev (dropWhile is_space s)))"

text \<open>
  \<^verbatim>\<open>text.split()\<close> with no separator: the maximal runs of non-whitespace code points, in
  order; no empty word is produced. \<open>split_scan w s\<close> scans \<open>s\<close> with the word \<open>w\<close> under
  construction.
\<close>

fun split_scan :: "str \<Rightarrow> str \<Rightarrow> str list" where
  "split_scan w [] = (if w = [] then [] else [w])"
| "split_scan w (c # cs) =
     (if is_space c then (if w = [] then split_scan [] cs else w # split_scan [] cs)
      else split_scan (w @ [c]) cs)"

definition split :: "str \<Rightarrow> str list" where
  "split s = split_scan [] s"

text \<open>The decimal numeral that an f-string prints for a non-negative \<^verbatim>\<open>int\<close>.\<close>

definition digit_char :: "nat \<Rightarrow> char" where
  "digit_char d = char_of (48 + d)"

fun digits :: "nat \<Rightarrow> string" where
  "digits n = (if n < 10 then [digit_char n] else digits (n div 10) @ [digit_char (n mod 10)])"

declare digits.simps [simp del]

subsection \<open>Numbers\<close>

text \<open>
  The values of \<^verbatim>\<open>np.float64\<close> that arithmetic on finite scores can give: the finite
  doubles and the two infinities, in their order.
\<close>

datatype float64 = NegInf | Finite rat | PosInf

instantiation float64 :: linorder
begin

fun less_eq_float64 :: "float64 \<Rightarrow> float64 \<Rightarrow> bool" where
  "less_eq_float64 NegInf _ = True"
| "less_eq_float64 _ PosInf = True"
| "less_eq_float64 (Finite x) (Finite y) = (x \<le> y)"
| "less_eq_float64 _ _ = False"

definition less_float64 :: "float64 \<Rightarrow> float64 \<Rightarrow> bool" where
  "less_float64 a b = (a \<le> b \<and> \<not> b \<le> a)"

instance
proof
  fix x y z :: float64
  show "(x < y) = (x \<le> y \<and> \<not> y \<le> x)"
    by (simp add: less_float64_def)
  show "x \<le> x"
    by (cases x) simp_all
  show "x \<le> y \<Longrightarrow> y \<le> z \<Longrightarrow> x \<le> z"
    by (cases x; cases y; cases z) simp_all
  show "x \<le> y \<Longrightarrow> y \<le> x \<Longrightarrow> x = y"
    by (cases x; cases y) simp_all
  show "x \<le> y \<or> y \<le> x"
    by (cases x; cases y) auto
qed

end

text \<open>Rounding to the nearest integer, ties to the even one.\<close>

definition round_half_even :: "rat \<Rightarrow> int" where
  "round_half_even x =
     (let f = \<lfloor>x\<rfloor>; d = x - of_int f
      in if d < 1 / 2 then f
         else if 1 / 2 < d then f + 1
         else if even f then f else f + 1)"

text \<open>
  For \<open>0 < x\<close>, the exponent \<open>e\<close> with \<open>2 powi e \<le> x < 2 powi (e + 1)\<close>, from the bit
  length of \<open>\<lfloor>x\<rfloor>\<close> when \<open>1 \<le> x\<close> and of \<open>\<lceil>1 / x\<rceil> - 1\<close> otherwise.
\<close>

definition floor_log2 :: "rat \<Rightarrow> int" where
  "floor_log2 x = (if 1 \<le> x then bitlen \<lfloor>x\<rfloor> - 1 else - bitlen (\<lceil>1 / x\<rceil> - 1))"

text \<open>
  Rounding to binary64 precision: to 53 significant bits, and below \<open>2 powi (- 1022)\<close> to
  a multiple of \<open>2 powi (- 1074)\<close>, ties to even. The exponent is not bounded above here.
  A Python float literal such as \<^verbatim>\<open>0.15\<close> denotes \<open>binary64 (3 / 20)\<close>.
\<close>

definition binary64 :: "rat \<Rightarrow> rat" where
  "binary64 x =
     (if x = 0 then 0
      else let e = max (floor_log2 \<bar>x\<bar>) (- 1022);
               q = 2 powi (e - 52)
           in of_int (round_half_even (x / q)) * q)"

text \<open>The double that an exact result rounds to; from \<open>2 ^ 1024\<close> on it is an infinity.\<close>

definition to_float64 :: "rat \<Rightarrow> float64" where
  "to_float64 x =
     (let y = binary64 x
      in if 2 ^ 1024 \<le> \<bar>y\<bar> then (if x < 0 then NegInf else PosInf) else Finite y)"

text \<open>\<^verbatim>\<open>a - b\<close> on two finite doubles.\<close>

definition f64_sub :: "rat \<Rightarrow> rat \<Rightarrow> float64" where
  "f64_sub a b = to_float64 (a - b)"

text \<open>
  \<^verbatim>\<open>round(x, 3)\<close> on an \<^verbatim>\<open>np.float64\<close> is numpy's rounding: the double product
  \<^verbatim>\<open>x * 1000.0\<close>, then \<^verbatim>\<open>rint\<close> (the nearest integer, ties to even), then the double quotient
  by \<^verbatim>\<open>1000.0\<close>.
\<close>

fun times_1000 :: "float64 \<Rightarrow> float64" where
  "times_1000 (Finite x) = to_float64 (x * 1000)"
| "times_1000 NegInf = NegInf"
| "times_1000 PosInf = PosInf"

fun rint :: "float64 \<Rightarrow> float64" where
  "rint (Finite x) = Finite (of_int (round_half_even x))"
| "rint NegInf = NegInf"
| "rint PosInf = PosInf"

fun over_1000 :: "float64 \<Rightarrow> float64" where
  "over_1000 (Finite x) = to_float64 (x / 1000)"
| "over_1000 NegInf = NegInf"
| "over_1000 PosInf = PosInf"

definition round3 :: "float64 \<Rightarrow> float64" where
  "round3 v = over_1000 (rint (times_1000 v))"

subsection \<open>Errors, classifiers, configuration\<close>

datatype py_error =
    IndexError
  | KeyError string
  | OSError
  | JSONDecodeError

text \<open>
  The human/AI classifier: \<^verbatim>\<open>decision_function([text])[0]\<close> is one signed score (the
  classifier is binary, the score a finite double), \<^verbatim>\<open>predict([text])[0]\<close> is a label. The attribution classifier:
  \<^verbatim>\<open>decision_function([text])[0]\<close> is a row of scores, \<^verbatim>\<open>classes_\<close> the class labels in
  the classifier's own order.
\<close>

record human_ai_oracle =
  hvai_decision_function :: "str \<Rightarrow> rat"
  hvai_predict :: "str \<Rightarrow> class_label"

record attrib_oracle =
  attrib_decision_function :: "str \<Rightarrow> rat list"
  attrib_classes :: "class_label list"

datatype oracle_call =
    HumanAI_decision_function str
  | HumanAI_predict str
  | Attrib_decision_function str

type_synonym trace = "oracle_call list"

text \<open>
  \<^verbatim>\<open>CONFIG\<close> is a dict from key to number; \<^verbatim>\<open>CONFIG[k]\<close> raises \<^verbatim>\<open>KeyError\<close> on a
  missing key.
\<close>

type_synonym config = "string \<rightharpoonup> rat"

definition config_get :: "config \<Rightarrow> string \<Rightarrow> py_error + rat" where
  "config_get c k = (case c k of None \<Rightarrow> Inl (KeyError k) | Some v \<Rightarrow> Inr v)"

definition default_config :: config where
  "default_config =
     [''min_words'' \<mapsto> 30,
      ''human_confidence_threshold'' \<mapsto> binary64 (1 / 2),
      ''attrib_confidence_gap'' \<mapsto> binary64 (3 / 20)]"

text \<open>
  What the three library calls of lines 17 to 19 do on the file \<^verbatim>\<open>saved_models/config.json\<close>:
  \<^item> \<open>Missing\<close>: \<^verbatim>\<open>os.path.exists\<close> returns False;
  \<^item> \<open>OpenFails\<close>: the path exists and \<^verbatim>\<open>open\<close> raises (the file is not readable);
  \<^item> \<open>ParseFails\<close>: the file opens and \<^verbatim>\<open>json.load\<close> raises (the content is not JSON);
  \<^item> \<open>Loaded d\<close>: \<^verbatim>\<open>json.load\<close> returns the dict \<open>d\<close>.
\<close>

datatype resource = Missing | OpenFails | ParseFails | Loaded config

definition load_config :: "resource \<Rightarrow> py_error + config" where
  "load_config r =
     (case r of
        Missing \<Rightarrow> Inr default_config
      | OpenFails \<Rightarrow> Inl OSError
      | ParseFails \<Rightarrow> Inl JSONDecodeError
      | Loaded d \<Rightarrow> Inr d)"

text \<open>The module's globals once the import-time code has run.\<close>

record system =
  human_ai_model :: human_ai_oracle
  attrib_model :: attrib_oracle
  CONFIG :: config

definition startup :: "human_ai_oracle \<Rightarrow> attrib_oracle \<Rightarrow> resource \<Rightarrow> py_error + system" where
  "startup hm am r =
     (case load_config r of
        Inl e \<Rightarrow> Inl e
      | Inr c \<Rightarrow> Inr \<lparr>human_ai_model = hm, attrib_model = am, CONFIG = c\<rparr>)"

subsection \<open>Ranking\<close>

text \<open>
  \<^verbatim>\<open>sorted(xs, key=k, reverse=True)\<close>: the list is reversed, sorted stably in ascending
  key order, and reversed again.
\<close>

definition sorted_reverse :: "('a \<Rightarrow> 'k::linorder) \<Rightarrow> 'a list \<Rightarrow> 'a list" where
  "sorted_reverse k xs = rev (sort_key k (rev xs))"

text \<open>The slice \<^verbatim>\<open>xs[:k]\<close>; a negative \<open>k\<close> counts from the end.\<close>

definition slice_to :: "int \<Rightarrow> 'a list \<Rightarrow> 'a list" where
  "slice_to k xs = (if 0 \<le> k then take (nat k) xs else take (nat (int (length xs) + k)) xs)"

definition classify_with_confidence ::
    "str \<Rightarrow> attrib_oracle \<Rightarrow> int \<Rightarrow> trace \<Rightarrow> (class_label \<times> rat) list \<times> trace" where
  "classify_with_confidence text model top_k tr =
     (let scores = attrib_decision_function model text;
          classes = attrib_classes model;
          ranked = sorted_reverse snd (zip classes scores)
      in (slice_to top_k ranked, tr @ [Attrib_decision_function text]))"

subsection \<open>The two results\<close>

record attribution =
  predicted_model :: class_label
  confidence_gap :: float64
  top_candidates :: "(class_label \<times> float64) list"

text \<open>\<^verbatim>\<open>ranked[0]\<close> and \<^verbatim>\<open>ranked[1]\<close> raise \<^verbatim>\<open>IndexError\<close> on a list that is too short.\<close>

definition safe_attribution :: "system \<Rightarrow> str \<Rightarrow> trace \<Rightarrow> (py_error + attribution) \<times> trace" where
  "safe_attribution sys text tr =
     (case classify_with_confidence text (attrib_model sys) 3 tr of
        (ranked, tr') \<Rightarrow>
          (case ranked of
             [] \<Rightarrow> (Inl IndexError, tr')
           | (best_model, best_score) # rest \<Rightarrow>
               (case rest of
                  [] \<Rightarrow> (Inl IndexError, tr')
                | (second_model, second_score) # _ \<Rightarrow>
                    (Inr \<lparr>predicted_model = best_model,
                          confidence_gap = round3 (f64_sub best_score second_score),
                          top_candidates = map (\<lambda>(m, s). (m, round3 (Finite s))) ranked\<rparr>,
                     tr'))))"

record human_ai_result =
  label :: class_label
  confidence :: float64
  raw_score :: float64

definition human_ai_decision :: "system \<Rightarrow> str \<Rightarrow> trace \<Rightarrow> human_ai_result \<times> trace" where
  "human_ai_decision sys text tr =
     (let score = hvai_decision_function (human_ai_model sys) text;
          lab = hvai_predict (human_ai_model sys) text
      in (\<lparr>label = lab, confidence = round3 (Finite \<bar>score\<bar>),
           raw_score = round3 (Finite score)\<rparr>,
          tr @ [HumanAI_decision_function text, HumanAI_predict text]))"

subsection \<open>The policy\<close>

text \<open>
  The dict that \<^verbatim>\<open>full_classify\<close> returns has one of four shapes, told apart by
  \<^verbatim>\<open>final_label\<close>; \<^verbatim>\<open>details\<close> holds either of the two results.
\<close>

datatype details = HvAI human_ai_result | Attrib attribution

datatype verdict =
    Uncertain string
  | Human details
  | AI_uncertain attribution
  | AI class_label attribution

fun final_label :: "verdict \<Rightarrow> string" where
  "final_label (Uncertain _) = ''uncertain''"
| "final_label (Human _) = ''human''"
| "final_label (AI_uncertain _) = ''ai_uncertain''"
| "final_label (AI _ _) = ''ai''"

text \<open>
  Stage 2 of \<^verbatim>\<open>full_classify\<close> (lines 91 to 110), on the stripped text. The key
  \<^verbatim>\<open>attrib_confidence_gap\<close> is read only when the predicted class is not \<^verbatim>\<open>human_story\<close>.
\<close>

definition stage2 :: "system \<Rightarrow> str \<Rightarrow> trace \<Rightarrow> (py_error + verdict) \<times> trace" where
  "stage2 sys text tr =
     (case safe_attribution sys text tr of
        (Inl e, tr') \<Rightarrow> (Inl e, tr')
      | (Inr attrib, tr') \<Rightarrow>
          if predicted_model attrib = ''human_story'' then (Inr (Human (Attrib attrib)), tr')
          else (case config_get (CONFIG sys) ''attrib_confidence_gap'' of
                  Inl e \<Rightarrow> (Inl e, tr')
                | Inr gap \<Rightarrow>
                    if confidence_gap attrib < Finite gap then (Inr (AI_uncertain attrib), tr')
                    else (Inr (AI (predicted_model attrib) attrib), tr')))"

text \<open>
  The test of line 85. Python's \<^verbatim>\<open>and\<close> reads the threshold only when the label is
  \<^verbatim>\<open>human\<close>.
\<close>

definition human_exit :: "system \<Rightarrow> human_ai_result \<Rightarrow> py_error + bool" where
  "human_exit sys hvai =
     (if label hvai = ''human'' then
        (case config_get (CONFIG sys) ''human_confidence_threshold'' of
           Inl e \<Rightarrow> Inl e
         | Inr threshold \<Rightarrow> Inr (Finite threshold \<le> confidence hvai))
      else Inr False)"

definition full_classify :: "system \<Rightarrow> str \<Rightarrow> trace \<Rightarrow> (py_error + verdict) \<times> trace" where
  "full_classify sys text0 tr =
     (let text = strip text0;
          word_count = length (split text)
      in case config_get (CONFIG sys) ''min_words'' of
           Inl e \<Rightarrow> (Inl e, tr)
         | Inr min_words \<Rightarrow>
             if of_nat word_count < min_words then
               (Inr (Uncertain (''Text too short ('' @ digits word_count @ '' words)'')), tr)
             else
               (case human_ai_decision sys text tr of
                  (hvai, tr1) \<Rightarrow>
                    (case human_exit sys hvai of
                       Inl e \<Rightarrow> (Inl e, tr1)
                     | Inr True \<Rightarrow> (Inr (Human (HvAI hvai)), tr1)
                     | Inr False \<Rightarrow> stage2 sys text tr1)))"

text \<open>
  The module as a program: the import-time code runs first and an exception there ends
  the process before \<^verbatim>\<open>demo.launch()\<close>; afterwards every button click is answered by
  \<^verbatim>\<open>full_classify\<close> on the submitted text, and an exception there fails that request
  only.
\<close>

definition app ::
    "human_ai_oracle \<Rightarrow> attrib_oracle \<Rightarrow> resource \<Rightarrow> str list \<Rightarrow> py_error + (py_error + verdict) list" where
  "app hm am r requests =
     (case startup hm am r of
        Inl e \<Rightarrow> Inl e
      | Inr sys \<Rightarrow> Inr (map (\<lambda>t. fst (full_classify sys t [])) requests))"

subsection \<open>Example inputs\<close>

text \<open>
  Classifiers that answer every text alike, and three texts: \<^verbatim>\<open>"a b"\<close>, the same with
  whitespace around it, and thirty words \<^verbatim>\<open>"a a ... a"\<close>.
\<close>

definition const_human_ai :: "rat \<Rightarrow> class_label \<Rightarrow> human_ai_oracle" where
  "const_human_ai s l = \<lparr>hvai_decision_function = (\<lambda>_. s), hvai_predict = (\<lambda>_. l)\<rparr>"

definition const_attrib :: "class_label list \<Rightarrow> rat list \<Rightarrow> attrib_oracle" where
  "const_attrib cs ss = \<lparr>attrib_decision_function = (\<lambda>_. ss), attrib_classes = cs\<rparr>"

definition two_words :: str where
  "two_words = [97, 32, 98]"

definition two_words_padded :: str where
  "two_words_padded = [32, 10, 97, 32, 9, 98, 32]"

definition thirty_words :: str where
  "thirty_words =
     [97, 32, 97, 32, 97, 32, 97, 32, 97, 32, 97, 32, 97, 32, 97, 32, 97, 32, 97, 32,
      97, 32, 97, 32, 97, 32, 97, 32, 97, 32, 97, 32, 97, 32, 97, 32, 97, 32, 97, 32,
      97, 32, 97, 32, 97, 32, 97, 32, 97, 32, 97, 32, 97, 32, 97, 32, 97, 32, 97]"

text \<open>
  The globals after a start with no configuration file, for constant classifiers.
\<close>

definition default_system :: "rat \<Rightarrow> class_label \<Rightarrow> class_label list \<Rightarrow> rat list \<Rightarrow> system" where
  "default_system s l cs ss =
     \<lparr>human_ai_model = const_human_ai s l, attrib_model = const_attrib cs ss,
      CONFIG = default_config\<rparr>"

text \<open>
  Three runs with the default configuration and the classes \<^verbatim>\<open>gpt_style\<close>,
  \<^verbatim>\<open>human_story\<close>, \<^verbatim>\<open>llama_style\<close>: a clear winner (gap 0.25), a thin margin (gap 0.125),
  and the sentinel class on top with a thin margin after an unconfident \<^verbatim>\<open>human\<close> of
  stage 1. All scores are doubles.
\<close>

abbreviation scenario_3 :: system where
  "scenario_3 \<equiv>
     default_system (- (3 / 4)) ''ai''
       [''gpt_style'', ''human_story'', ''llama_style''] [2, 1, 7 / 4]"

abbreviation scenario_4 :: system where
  "scenario_4 \<equiv>
     default_system (- (3 / 4)) ''ai''
       [''gpt_style'', ''human_story'', ''llama_style''] [2, 1, 15 / 8]"

abbreviation scenario_5 :: system where
  "scenario_5 \<equiv>
     default_system (1 / 4) ''human''
       [''gpt_style'', ''human_story'', ''llama_style''] [1, 2, 15 / 8]"

abbreviation attribution_3 :: attribution where
  "attribution_3 \<equiv>
     \<lparr>predicted_model = ''gpt_style'', confidence_gap = Finite (1 / 4),
      top_candidates =
        [(''gpt_style'', Finite 2), (''llama_style'', Finite (7 / 4)),
         (''human_story'', Finite 1)]\<rparr>"

abbreviation attribution_4 :: attribution where
  "attribution_4 \<equiv>
     \<lparr>predicted_model = ''gpt_style'', confidence_gap = Finite (1 / 8),
      top_candidates =
        [(''gpt_style'', Finite 2), (''llama_style'', Finite (15 / 8)),
         (''human_story'', Finite 1)]\<rparr>"

abbreviation attribution_5 :: attribution where
  "attribution_5 \<equiv>
     \<lparr>predicted_model = ''human_story'', confidence_gap = Finite (1 / 8),
      top_candidates =
        [(''human_story'', Finite 2), (''llama_style'', Finite (15 / 8)),
         (''gpt_style'', Finite 1)]\<rparr>"

text \<open>
  A run in which rounding matters: the scores 2 and 1.8504 (as a double) differ by
  0.1496 and a little less, below the double 0.15, and the rounded gap is the double 0.15.
\<close>

abbreviation scenario_near :: system where
  "scenario_near \<equiv>
     default_system (- (3 / 4)) ''ai''
       [''gpt_style'', ''human_story'', ''llama_style''] [2, 1, binary64 (2313 / 1250)]"

abbreviation attribution_near :: attribution where
  "attribution_near \<equiv>
     \<lparr>predicted_model = ''gpt_style'', confidence_gap = Finite (binary64 (3 / 20)),
      top_candidates =
        [(''gpt_style'', Finite 2), (''llama_style'', Finite (binary64 (37 / 20))),
         (''human_story'', Finite 1)]\<rparr>"

abbreviation stage_1_calls :: "str \<Rightarrow> trace" where
  "stage_1_calls text \<equiv> [HumanAI_decision_function text, HumanAI_predict text]"

abbreviation all_calls :: "str \<Rightarrow> trace" where
  "all_calls text \<equiv>
     [HumanAI_decision_function text, HumanAI_predict text, Attrib_decision_function text]"

section \<open>Auxiliary facts\<close>

subsection \<open>Doubles\<close>

lemma less_float64_simps [simp]:
  "Finite x < Finite y \<longleftrightarrow> x < y"
  "NegInf < Finite x" "Finite x < PosInf" "NegInf < PosInf"
  "\<not> PosInf < v" "\<not> v < NegInf"
  by (cases v; auto simp add: less_float64_def)+

lemma round_half_even_nonneg: "0 \<le> x \<Longrightarrow> 0 \<le> round_half_even x"
  by (simp add: round_half_even_def Let_def)

lemma round_half_even_close: "\<bar>of_int (round_half_even y) - y\<bar> \<le> 1 / 2"
proof -
  have "of_int \<lfloor>y\<rfloor> \<le> y" "y < of_int \<lfloor>y\<rfloor> + 1"
    by linarith+
  then show ?thesis
    by (auto simp add: round_half_even_def Let_def abs_le_iff)
qed

lemma round_half_even_of_int [simp]: "round_half_even (of_int k) = k"
  by (simp add: round_half_even_def)

lemma round_half_even_numeral [simp]:
  "round_half_even (numeral n) = numeral n" "round_half_even (- numeral n) = - numeral n"
  "round_half_even 0 = 0" "round_half_even 1 = 1"
  using round_half_even_of_int [of "numeral n"] round_half_even_of_int [of "- numeral n"]
    round_half_even_of_int [of 0] round_half_even_of_int [of 1]
  by simp_all

lemma binary64_nonneg: "0 \<le> x \<Longrightarrow> 0 \<le> binary64 x"
proof -
  assume x: "0 \<le> x"
  have q: "0 < (2 :: rat) powi n" for n
    by (simp add: zero_less_power_int)
  have "0 \<le> round_half_even (x / 2 powi n)" for n
    using x q [of n] by (intro round_half_even_nonneg) simp
  then show ?thesis
    using q by (simp add: binary64_def Let_def less_imp_le)
qed

lemma to_float64_nonneg: "0 \<le> x \<Longrightarrow> Finite 0 \<le> to_float64 x"
  by (simp add: to_float64_def Let_def binary64_nonneg)

lemma to_float64_finite: "\<bar>binary64 x\<bar> < 2 ^ 1024 \<Longrightarrow> to_float64 x = Finite (binary64 x)"
  by (simp add: to_float64_def Let_def)

lemma f64_sub_nonneg: "b \<le> a \<Longrightarrow> Finite 0 \<le> f64_sub a b"
  by (simp add: f64_sub_def to_float64_nonneg)

lemma round3_nonneg: "Finite 0 \<le> v \<Longrightarrow> Finite 0 \<le> round3 v"
proof (cases v)
  case (Finite x)
  assume "Finite 0 \<le> v"
  then have x: "0 \<le> x"
    using Finite by simp
  show ?thesis
  proof (cases "to_float64 (x * 1000)")
    case NegInf
    then show ?thesis
      using to_float64_nonneg [of "x * 1000"] x by simp
  next
    case (Finite p)
    then have "0 \<le> p"
      using to_float64_nonneg [of "x * 1000"] x by simp
    then have "0 \<le> (of_int (round_half_even p) :: rat) / 1000"
      by (simp add: round_half_even_nonneg)
    then show ?thesis
      using Finite \<open>v = Finite x\<close> by (simp add: round3_def to_float64_nonneg)
  next
    case PosInf
    then show ?thesis
      using \<open>v = Finite x\<close> by (simp add: round3_def)
  qed
qed (simp_all add: round3_def)

text \<open>
  What \<^verbatim>\<open>round(x, 3)\<close> gives: an infinity, or the double quotient by 1000 of an integer
  that is nearest to the double product of \<open>x\<close> by 1000.
\<close>

lemma round3_three_decimals:
  "round3 v = PosInf \<or> round3 v = NegInf \<or>
   (\<exists>k p. times_1000 v = Finite p \<and> \<bar>of_int k - p\<bar> \<le> 1 / 2 \<and>
          round3 v = to_float64 (of_int k / 1000))"
proof (cases "times_1000 v")
  case (Finite p)
  then have "round3 v = to_float64 (of_int (round_half_even p) / 1000)"
    by (simp add: round3_def)
  then show ?thesis
    using Finite round_half_even_close [of p] by blast
qed (simp_all add: round3_def)

text \<open>Evaluating the arithmetic at given doubles.\<close>

lemma round3_eval:
  assumes "binary64 (x * 1000) = p" and "\<bar>p\<bar> < 2 ^ 1024"
    and "round_half_even p = k"
    and "binary64 (of_int k / 1000) = v" and "\<bar>v\<bar> < 2 ^ 1024"
  shows "round3 (Finite x) = Finite v"
  using assms by (simp add: round3_def to_float64_finite)

lemma f64_sub_eval:
  assumes "binary64 (a - b) = d" and "\<bar>d\<bar> < 2 ^ 1024"
  shows "f64_sub a b = Finite d"
  using assms by (simp add: f64_sub_def to_float64_finite)

lemma binary64_values:
  "binary64 (1 / 2) = 1 / 2" "binary64 (1 / 8) = 1 / 8" "binary64 (1 / 4) = 1 / 4"
  "binary64 (3 / 4) = 3 / 4" "binary64 (- (3 / 4)) = - (3 / 4)" "binary64 1 = 1" "binary64 2 = 2"
  "binary64 (7 / 4) = 7 / 4" "binary64 (15 / 8) = 15 / 8"
  "binary64 125 = 125" "binary64 250 = 250" "binary64 750 = 750" "binary64 (- 750) = - 750"
  "binary64 1000 = 1000" "binary64 2000 = 2000" "binary64 1750 = 1750" "binary64 1875 = 1875"
  by code_simp+

lemma binary64_three_twentieths:
  "binary64 (3 / 20) = 5404319552844595 / 36028797018963968"
  by code_simp

lemma round3_values:
  "round3 (Finite (1 / 8)) = Finite (1 / 8)" "round3 (Finite (1 / 4)) = Finite (1 / 4)"
  "round3 (Finite (3 / 4)) = Finite (3 / 4)" "round3 (Finite (- (3 / 4))) = Finite (- (3 / 4))"
  "round3 (Finite 1) = Finite 1" "round3 (Finite 2) = Finite 2"
  "round3 (Finite (7 / 4)) = Finite (7 / 4)" "round3 (Finite (15 / 8)) = Finite (15 / 8)"
  by (simp_all add: round3_def to_float64_finite binary64_values)

lemma f64_sub_values:
  "f64_sub 2 (7 / 4) = Finite (1 / 4)" "f64_sub 2 (15 / 8) = Finite (1 / 8)"
  by (simp_all add: f64_sub_def to_float64_finite binary64_values)

lemma binary64_literals:
  "binary64 (37 / 20) = 4165829655317709 / 2251799813685248"
  "binary64 (2313 / 1250) = 4166730375243183 / 2251799813685248"
  "binary64 (1249 / 2500) = 8999993495337199 / 18014398509481984"
  "binary64 (999 / 2000) = 8998192055486251 / 18014398509481984"
  "binary64 (299 / 2000) = 5386305154335113 / 36028797018963968"
  by code_simp+

lemma f64_sub_near: "f64_sub 2 (binary64 (2313 / 1250)) = Finite (336869252127313 / 2251799813685248)"
proof (rule f64_sub_eval)
  show "binary64 (2 - binary64 (2313 / 1250)) = 336869252127313 / 2251799813685248"
    by code_simp
  show "\<bar>336869252127313 / 2251799813685248 :: rat\<bar> < 2 ^ 1024"
    by simp
qed

lemma round3_near_gap:
  "round3 (Finite (336869252127313 / 2251799813685248)) = Finite (binary64 (3 / 20))"
proof (rule round3_eval)
  show "binary64 (336869252127313 / 2251799813685248 * 1000) = 2631791032244633 / 17592186044416"
    by code_simp
  show "\<bar>2631791032244633 / 17592186044416 :: rat\<bar> < 2 ^ 1024"
    by simp
  show "round_half_even (2631791032244633 / 17592186044416) = 150"
    by code_simp
  show "binary64 (of_int 150 / 1000) = binary64 (3 / 20)"
    by code_simp
  show "\<bar>binary64 (3 / 20)\<bar> < 2 ^ 1024"
    by (simp add: binary64_three_twentieths)
qed

lemma round3_near_score:
  "round3 (Finite (binary64 (2313 / 1250))) = Finite (binary64 (37 / 20))"
proof (rule round3_eval)
  show "binary64 (binary64 (2313 / 1250) * 1000) = 4069072632073421 / 2199023255552"
    by code_simp
  show "\<bar>4069072632073421 / 2199023255552 :: rat\<bar> < 2 ^ 1024"
    by simp
  show "round_half_even (4069072632073421 / 2199023255552) = 1850"
    by code_simp
  show "binary64 (of_int 1850 / 1000) = binary64 (37 / 20)"
    by code_simp
  show "\<bar>binary64 (37 / 20)\<bar> < 2 ^ 1024"
    by (simp add: binary64_literals)
qed

text \<open>
  The doubles 0.4996 and 0.4995 are below 0.5 and round to 0.5: the products by 1000 are
  the doubles 499.6 and 499.5, and \<^verbatim>\<open>rint\<close> takes both to 500.
\<close>

lemma round3_4996:
  "round3 (Finite \<bar>binary64 (1249 / 2500)\<bar>) = Finite (1 / 2)"
  "round3 (Finite (binary64 (1249 / 2500))) = Finite (1 / 2)"
proof -
  have "round3 (Finite (binary64 (1249 / 2500))) = Finite (1 / 2)"
  proof (rule round3_eval)
    show "binary64 (binary64 (1249 / 2500) * 1000) = 8789056147790233 / 17592186044416"
      by code_simp
    show "\<bar>8789056147790233 / 17592186044416 :: rat\<bar> < 2 ^ 1024"
      by simp
    show "round_half_even (8789056147790233 / 17592186044416) = 500"
      by code_simp
    show "binary64 (of_int 500 / 1000) = 1 / 2"
      by code_simp
    show "\<bar>1 / 2 :: rat\<bar> < 2 ^ 1024"
      by simp
  qed
  moreover have "\<bar>binary64 (1249 / 2500)\<bar> = binary64 (1249 / 2500)"
    by (simp add: binary64_literals)
  ultimately show "round3 (Finite \<bar>binary64 (1249 / 2500)\<bar>) = Finite (1 / 2)"
    "round3 (Finite (binary64 (1249 / 2500))) = Finite (1 / 2)"
    by simp_all
qed

lemma round3_4995: "round3 (Finite \<bar>binary64 (999 / 2000)\<bar>) = Finite (1 / 2)"
proof -
  have "round3 (Finite (binary64 (999 / 2000))) = Finite (1 / 2)"
  proof (rule round3_eval)
    show "binary64 (binary64 (999 / 2000) * 1000) = 999 / 2"
      by code_simp
    show "\<bar>999 / 2 :: rat\<bar> < 2 ^ 1024"
      by simp
    show "round_half_even (999 / 2) = 500"
      by code_simp
    show "binary64 (of_int 500 / 1000) = 1 / 2"
      by code_simp
    show "\<bar>1 / 2 :: rat\<bar> < 2 ^ 1024"
      by simp
  qed
  moreover have "\<bar>binary64 (999 / 2000)\<bar> = binary64 (999 / 2000)"
    by (simp add: binary64_literals)
  ultimately show ?thesis
    by simp
qed

lemma round3_1495: "round3 (Finite (binary64 (299 / 2000))) = Finite (binary64 (3 / 20))"
proof (rule round3_eval)
  show "binary64 (binary64 (299 / 2000) * 1000) = 299 / 2"
    by code_simp
  show "\<bar>299 / 2 :: rat\<bar> < 2 ^ 1024"
    by simp
  show "round_half_even (299 / 2) = 150"
    by code_simp
  show "binary64 (of_int 150 / 1000) = binary64 (3 / 20)"
    by code_simp
  show "\<bar>binary64 (3 / 20)\<bar> < 2 ^ 1024"
    by (simp add: binary64_three_twentieths)
qed

subsection \<open>The rounding to a double is what it should be\<close>

lemma floor_log2_bounds:
  assumes "0 < x"
  shows "2 powi floor_log2 x \<le> x \<and> x < 2 powi (floor_log2 x + 1)"
proof (cases "1 \<le> x")
  case True
  define n where "n = \<lfloor>x\<rfloor>"
  have n: "0 < n" "of_int n \<le> x" "x < of_int n + 1"
    using True by (simp_all add: n_def) linarith
  have b: "1 \<le> bitlen n"
    using n(1) bitlen_ge_iff_power [of 1 n] by simp
  from bitlen_bounds [OF n(1)] have lo: "2 ^ nat (bitlen n - 1) \<le> n" and hi: "n + 1 \<le> 2 ^ nat (bitlen n)"
    by simp_all
  have e: "floor_log2 x = int (nat (bitlen n - 1))" "floor_log2 x + 1 = int (nat (bitlen n))"
    using True b by (simp_all add: floor_log2_def n_def)
  have "(of_int (2 ^ nat (bitlen n - 1)) :: rat) \<le> of_int n"
    using lo by (simp only: of_int_le_iff)
  then have "(2 :: rat) ^ nat (bitlen n - 1) \<le> of_int n"
    by simp
  moreover have "(of_int (n + 1) :: rat) \<le> of_int (2 ^ nat (bitlen n))"
    using hi by (simp only: of_int_le_iff)
  then have "(of_int n + 1 :: rat) \<le> 2 ^ nat (bitlen n)"
    by simp
  moreover have "(2 :: rat) powi floor_log2 x = 2 ^ nat (bitlen n - 1)"
    by (simp only: e(1) power_int_of_nat)
  moreover have "(2 :: rat) powi (floor_log2 x + 1) = 2 ^ nat (bitlen n)"
    by (simp only: e(2) power_int_of_nat)
  ultimately show ?thesis
    using n(2,3) by linarith
next
  case False
  define m where "m = \<lceil>1 / x\<rceil> - 1"
  have y: "1 < 1 / x"
    using False assms by simp
  have m: "0 < m" "of_int m < 1 / x" "1 / x \<le> of_int m + 1"
    using y by (simp_all add: m_def) linarith+
  have b: "1 \<le> bitlen m"
    using m(1) bitlen_ge_iff_power [of 1 m] by simp
  from bitlen_bounds [OF m(1)] have lo: "2 ^ nat (bitlen m - 1) \<le> m" and hi: "m + 1 \<le> 2 ^ nat (bitlen m)"
    by simp_all
  have "(of_int (2 ^ nat (bitlen m - 1)) :: rat) \<le> of_int m"
    using lo by (simp only: of_int_le_iff)
  then have lo': "(2 :: rat) ^ nat (bitlen m - 1) \<le> of_int m"
    by simp
  have "(of_int (m + 1) :: rat) \<le> of_int (2 ^ nat (bitlen m))"
    using hi by (simp only: of_int_le_iff)
  then have hi': "(of_int m + 1 :: rat) \<le> 2 ^ nat (bitlen m)"
    by simp
  have e: "floor_log2 x = - int (nat (bitlen m))" "floor_log2 x + 1 = - int (nat (bitlen m - 1))"
    using False b by (simp_all add: floor_log2_def m_def)
  have 1: "1 / x \<le> 2 ^ nat (bitlen m)"
    using hi' m(3) by linarith
  have 2: "(2 :: rat) ^ nat (bitlen m - 1) < 1 / x"
    using lo' m(2) by linarith
  have "1 / 2 ^ nat (bitlen m) \<le> x"
    using 1 assms by (simp add: field_simps)
  moreover have "x < 1 / 2 ^ nat (bitlen m - 1)"
    using 2 assms by (simp add: field_simps)
  moreover have "(2 :: rat) powi floor_log2 x = 1 / 2 ^ nat (bitlen m)"
    by (simp only: e(1) power_int_minus power_int_of_nat inverse_eq_divide)
  moreover have "(2 :: rat) powi (floor_log2 x + 1) = 1 / 2 ^ nat (bitlen m - 1)"
    by (simp only: e(2) power_int_minus power_int_of_nat inverse_eq_divide)
  ultimately show ?thesis
    by simp
qed

text \<open>
  \<open>binary64 x\<close> is a multiple of the spacing \<open>q\<close> of the doubles around \<open>x\<close>, at most half
  a spacing away from \<open>x\<close>.
\<close>

lemma binary64_nearest:
  assumes "x \<noteq> 0"
  defines "q \<equiv> 2 powi (max (floor_log2 \<bar>x\<bar>) (- 1022) - 52)"
  shows "\<exists>m :: int. binary64 x = of_int m * q \<and> \<bar>binary64 x - x\<bar> \<le> q / 2"
proof -
  have q: "0 < q"
    by (simp add: q_def)
  let ?m = "round_half_even (x / q)"
  have "\<bar>of_int ?m - x / q\<bar> \<le> 1 / 2"
    by (rule round_half_even_close)
  then have "\<bar>of_int ?m - x / q\<bar> * q \<le> 1 / 2 * q"
    using q by (intro mult_right_mono) simp_all
  moreover have "\<bar>of_int ?m - x / q\<bar> * q = \<bar>of_int ?m * q - x\<bar>"
  proof -
    have "(of_int ?m - x / q) * q = of_int ?m * q - x"
      using q by (simp add: field_simps)
    then have "\<bar>of_int ?m * q - x\<bar> = \<bar>of_int ?m - x / q\<bar> * \<bar>q\<bar>"
      by (simp only: abs_mult [symmetric])
    then show ?thesis
      using q by simp
  qed
  ultimately have "\<bar>of_int ?m * q - x\<bar> \<le> q / 2"
    by simp
  moreover have "binary64 x = of_int ?m * q"
    using assms(1) by (simp add: binary64_def Let_def q_def)
  ultimately show ?thesis
    by auto
qed

text \<open>From \<open>2 ^ 1024\<close> on, a result overflows.\<close>

lemma round_half_even_ge_floor: "\<lfloor>y\<rfloor> \<le> round_half_even y"
  by (simp add: round_half_even_def Let_def)

lemma to_float64_overflow:
  assumes "2 ^ 1024 \<le> x"
  shows "to_float64 x = PosInf"
proof -
  have x: "0 < x"
    using assms by (rule less_le_trans [rotated]) simp
  let ?e = "floor_log2 x"
  have bounds: "2 powi ?e \<le> x" "x < 2 powi (?e + 1)"
    using floor_log2_bounds [OF x] by simp_all
  have e: "1024 \<le> ?e"
  proof (rule ccontr)
    assume "\<not> 1024 \<le> ?e"
    then have "?e + 1 \<le> 1024"
      by simp
    then have "(2 :: rat) powi (?e + 1) \<le> 2 powi 1024"
      by (intro power_int_increasing) simp_all
    then show False
      using bounds(2) assms by simp
  qed
  define q :: rat where "q = 2 powi (?e - 52)"
  have q: "0 < q"
    by (simp add: q_def)
  have split: "(2 :: rat) powi ?e = 2 ^ 52 * q"
    using power_int_add [of "2 :: rat" 52 "?e - 52"] by (simp add: q_def)
  then have "of_int (2 ^ 52) \<le> x / q"
    using bounds(1) q by (simp add: field_simps)
  then have "2 ^ 52 \<le> \<lfloor>x / q\<rfloor>"
    by (simp only: le_floor_iff)
  then have "2 ^ 52 \<le> round_half_even (x / q)"
    using round_half_even_ge_floor [of "x / q"] by linarith
  then have "(of_int (2 ^ 52) :: rat) \<le> of_int (round_half_even (x / q))"
    by (simp only: of_int_le_iff)
  then have "2 ^ 52 * q \<le> of_int (round_half_even (x / q)) * q"
    using q by simp
  moreover have "binary64 x = of_int (round_half_even (x / q)) * q"
    using x e by (simp add: binary64_def Let_def q_def max_def)
  moreover have "(2 :: rat) ^ 1024 \<le> 2 powi ?e"
    using power_int_increasing [of 1024 ?e "2 :: rat"] e by simp
  ultimately have "2 ^ 1024 \<le> binary64 x"
    using split by linarith
  then show ?thesis
    using x by (simp add: to_float64_def Let_def)
qed

lemma round3_overflow: "round3 (Finite (2 ^ 1021)) = PosInf"
proof -
  have "(2 :: rat) ^ 1024 \<le> 2 ^ 1021 * 1000"
    by simp
  then have "to_float64 (2 ^ 1021 * 1000) = PosInf"
    by (rule to_float64_overflow)
  then show ?thesis
    by (simp only: round3_def times_1000.simps rint.simps over_1000.simps)
qed

subsection \<open>Ranking\<close>

lemma sorted_reverse_descending: "sorted_wrt (\<lambda>a b. k b \<le> k a) (sorted_reverse k xs)"
proof -
  have "sorted (map k (sort_key k (rev xs)))"
    by (rule sorted_sort_key)
  then have "sorted_wrt (\<lambda>a b. k a \<le> k b) (sort_key k (rev xs))"
    by (simp add: sorted_map)
  then show ?thesis
    by (simp add: sorted_reverse_def sorted_wrt_rev)
qed

lemma sorted_reverse_stable:
  "filter (\<lambda>y. k y = v) (sorted_reverse k xs) = filter (\<lambda>y. k y = v) xs"
proof -
  have "filter (\<lambda>y. k y = v) (sorted_reverse k xs) =
        rev (filter (\<lambda>y. k y = v) (sort_key k (rev xs)))"
    by (simp add: sorted_reverse_def rev_filter)
  also have "\<dots> = rev (filter (\<lambda>y. k y = v) (rev xs))"
    by (simp only: sort_key_stable)
  also have "\<dots> = filter (\<lambda>y. k y = v) xs"
    by (simp add: rev_filter)
  finally show ?thesis .
qed

lemma length_sorted_reverse: "length (sorted_reverse k xs) = length xs"
  by (simp add: sorted_reverse_def)

lemma slice_to_prefix: "prefix (slice_to k xs) xs"
  by (simp add: slice_to_def take_is_prefix)

lemma slice_to_sorted: "sorted_wrt P xs \<Longrightarrow> sorted_wrt P (slice_to k xs)"
  by (simp add: slice_to_def sorted_wrt_take)

lemma length_slice_to_3: "length (slice_to 3 xs) = min 3 (length xs)"
  by (simp add: slice_to_def)

lemma subseq_pair_nth:
  assumes "i < j" "j < length xs"
  shows "subseq [xs ! i, xs ! j] xs"
proof -
  let ?ys = "drop (Suc i) xs"
  have j': "j - Suc i < length ?ys" and nth_j: "?ys ! (j - Suc i) = xs ! j"
    using assms by simp_all
  have xs: "xs = take i xs @ xs ! i # ?ys"
    using assms by (simp add: id_take_nth_drop)
  have ys: "?ys = take (j - Suc i) ?ys @ xs ! j # drop (Suc (j - Suc i)) ?ys"
    using id_take_nth_drop [OF j'] nth_j by simp
  have "subseq [xs ! j] (xs ! j # drop (Suc (j - Suc i)) ?ys)"
    by simp
  then have "subseq [xs ! j] (take (j - Suc i) ?ys @ xs ! j # drop (Suc (j - Suc i)) ?ys)"
    by (rule list_emb_append2)
  then have "subseq [xs ! j] ?ys"
    using ys by simp
  then have "subseq [xs ! i, xs ! j] (xs ! i # ?ys)"
    by simp
  then have "subseq [xs ! i, xs ! j] (take i xs @ xs ! i # ?ys)"
    by (rule list_emb_append2)
  then show ?thesis
    using xs by simp
qed

text \<open>
  Two entries of (a prefix of) the ranking with the same key stand in the unsorted list
  in the same order.
\<close>

lemma ties_keep_order:
  assumes "prefix ranked (sorted_reverse k xs)" "i < j" "j < length ranked"
    "k (ranked ! i) = k (ranked ! j)"
  shows "subseq [ranked ! i, ranked ! j] xs"
proof -
  let ?P = "\<lambda>y. k y = k (ranked ! j)"
  have "subseq [ranked ! i, ranked ! j] ranked"
    using assms(2,3) by (rule subseq_pair_nth)
  then have "subseq (filter ?P [ranked ! i, ranked ! j]) (filter ?P ranked)"
    by (rule subseq_filter)
  then have 1: "subseq [ranked ! i, ranked ! j] (filter ?P ranked)"
    using assms(4) by simp
  have "prefix (filter ?P ranked) (filter ?P (sorted_reverse k xs))"
    using assms(1) by (rule filter_mono_prefix)
  then have 2: "subseq (filter ?P ranked) (filter ?P xs)"
    by (simp add: sorted_reverse_stable prefix_imp_subseq)
  have 3: "subseq (filter ?P xs) xs"
    by simp
  from 1 2 3 show ?thesis
    by (meson subseq_order.order_trans)
qed

lemma fst_classify_with_confidence:
  "fst (classify_with_confidence text model top_k tr) =
     slice_to top_k
       (sorted_reverse snd (zip (attrib_classes model) (attrib_decision_function model text)))"
  by (simp add: classify_with_confidence_def Let_def)

lemma snd_classify_with_confidence:
  "snd (classify_with_confidence text model top_k tr) = tr @ [Attrib_decision_function text]"
  by (simp add: classify_with_confidence_def Let_def)

subsection \<open>The examples, evaluated\<close>

lemma default_config_min_words: "default_config ''min_words'' = Some 30"
  by (simp add: default_config_def)

lemma default_config_threshold: "default_config ''human_confidence_threshold'' = Some (1 / 2)"
  by (simp add: default_config_def binary64_values)

lemma default_config_gap:
  "default_config ''attrib_confidence_gap'' = Some (binary64 (3 / 20))"
  by (simp add: default_config_def)

lemma CONFIG_default_system: "CONFIG (default_system s l cs ss) = default_config"
  by (simp add: default_system_def)

lemma oracles_default_system:
  "hvai_decision_function (human_ai_model (default_system s l cs ss)) t = s"
  "hvai_predict (human_ai_model (default_system s l cs ss)) t = l"
  "attrib_classes (attrib_model (default_system s l cs ss)) = cs"
  "attrib_decision_function (attrib_model (default_system s l cs ss)) t = ss"
  by (simp_all add: default_system_def const_human_ai_def const_attrib_def)

lemma strip_two_words: "strip two_words = two_words"
  by (simp add: strip_def two_words_def is_space_def)

lemma strip_two_words_padded: "strip two_words_padded = [97, 32, 9, 98]"
  by (simp add: strip_def two_words_padded_def is_space_def)

lemma strip_thirty_words: "strip thirty_words = thirty_words"
  by (simp add: strip_def thirty_words_def is_space_def)

lemma count_two_words: "length (split two_words) = 2"
  by (simp add: split_def two_words_def is_space_def)

lemma count_two_words_padded: "length (split [97, 32, 9, 98]) = 2"
  by (simp add: split_def is_space_def)

lemma count_thirty_words: "length (split thirty_words) = 30"
  by (simp add: split_def thirty_words_def is_space_def)

lemma digits_2: "digits 2 = ''2''"
  by code_simp

lemma human_ai_decision_default_system:
  "human_ai_decision (default_system s l cs ss) text tr =
     (\<lparr>label = l, confidence = round3 (Finite \<bar>s\<bar>), raw_score = round3 (Finite s)\<rparr>,
      tr @ [HumanAI_decision_function text, HumanAI_predict text])"
  by (simp add: human_ai_decision_def default_system_def const_human_ai_def)

lemma sorted_reverse_scenario_3:
  "sorted_reverse snd [(''gpt_style'', 2 :: rat), (''human_story'', 1), (''llama_style'', 7 / 4)] =
     [(''gpt_style'', 2), (''llama_style'', 7 / 4), (''human_story'', 1)]"
  by code_simp

lemma sorted_reverse_scenario_4:
  "sorted_reverse snd [(''gpt_style'', 2 :: rat), (''human_story'', 1), (''llama_style'', 15 / 8)] =
     [(''gpt_style'', 2), (''llama_style'', 15 / 8), (''human_story'', 1)]"
  by code_simp

lemma sorted_reverse_scenario_5:
  "sorted_reverse snd [(''gpt_style'', 1 :: rat), (''human_story'', 2), (''llama_style'', 15 / 8)] =
     [(''human_story'', 2), (''llama_style'', 15 / 8), (''gpt_style'', 1)]"
  by code_simp

lemma sorted_reverse_scenario_near:
  "sorted_reverse snd
     [(''gpt_style'', 2 :: rat), (''human_story'', 1), (''llama_style'', binary64 (2313 / 1250))] =
   [(''gpt_style'', 2), (''llama_style'', binary64 (2313 / 1250)), (''human_story'', 1)]"
  by code_simp

lemma classify_with_confidence_scenario_4:
  "classify_with_confidence text (attrib_model scenario_4) 3 tr =
     ([(''gpt_style'', 2), (''llama_style'', 15 / 8), (''human_story'', 1)],
      tr @ [Attrib_decision_function text])"
  by (simp add: classify_with_confidence_def default_system_def const_attrib_def slice_to_def
      sorted_reverse_scenario_4)

lemma classify_with_confidence_scenario_near:
  "classify_with_confidence text
     (attrib_model (default_system s l [''gpt_style'', ''human_story'', ''llama_style'']
        [2, 1, binary64 (2313 / 1250)])) 3 tr =
   ([(''gpt_style'', 2), (''llama_style'', binary64 (2313 / 1250)), (''human_story'', 1)],
    tr @ [Attrib_decision_function text])"
  by (simp add: classify_with_confidence_def default_system_def const_attrib_def slice_to_def
      sorted_reverse_scenario_near)

lemma safe_attribution_scenario_3:
  "safe_attribution
     (default_system s l [''gpt_style'', ''human_story'', ''llama_style''] [2, 1, 7 / 4])
     text tr =
   (Inr attribution_3, tr @ [Attrib_decision_function text])"
  by (simp add: safe_attribution_def classify_with_confidence_def default_system_def
      const_attrib_def slice_to_def sorted_reverse_scenario_3 round3_values f64_sub_values)

lemma safe_attribution_scenario_4:
  "safe_attribution
     (default_system s l [''gpt_style'', ''human_story'', ''llama_style''] [2, 1, 15 / 8])
     text tr =
   (Inr attribution_4, tr @ [Attrib_decision_function text])"
  by (simp add: safe_attribution_def classify_with_confidence_def default_system_def
      const_attrib_def slice_to_def sorted_reverse_scenario_4 round3_values f64_sub_values)

lemma safe_attribution_scenario_5:
  "safe_attribution
     (default_system s l [''gpt_style'', ''human_story'', ''llama_style''] [1, 2, 15 / 8])
     text tr =
   (Inr attribution_5, tr @ [Attrib_decision_function text])"
  by (simp add: safe_attribution_def classify_with_confidence_def default_system_def
      const_attrib_def slice_to_def sorted_reverse_scenario_5 round3_values f64_sub_values)

lemma safe_attribution_scenario_near:
  "safe_attribution
     (default_system s l [''gpt_style'', ''human_story'', ''llama_style'']
        [2, 1, binary64 (2313 / 1250)])
     text tr =
   (Inr attribution_near, tr @ [Attrib_decision_function text])"
  by (simp add: safe_attribution_def classify_with_confidence_scenario_near
      round3_values f64_sub_near round3_near_gap round3_near_score)

section \<open>The claims\<close>

text \<open>
  C1 (as amended). When the word count of the stripped text is below \<^verbatim>\<open>CONFIG["min_words"]\<close>,
  \<^verbatim>\<open>full_classify\<close> returns the verdict \<^verbatim>\<open>uncertain\<close> at once: the trace of classifier
  calls is returned unchanged, so neither classifier is invoked, and the reason is
  \<^verbatim>\<open>Text too short (N words)\<close> with \<open>N\<close> the word count in decimal. The threshold is not
  part of the message.
\<close>

theorem short_text_is_uncertain:
  assumes "CONFIG sys ''min_words'' = Some min_words"
    and "of_nat (length (split (strip text))) < min_words"
  shows "full_classify sys text tr =
           (Inr (Uncertain (''Text too short ('' @ digits (length (split (strip text))) @
                            '' words)'')), tr) \<and>
         sublist (digits (length (split (strip text))))
           (''Text too short ('' @ digits (length (split (strip text))) @ '' words)'')"
proof
  show "full_classify sys text tr =
           (Inr (Uncertain (''Text too short ('' @ digits (length (split (strip text))) @
                            '' words)'')), tr)"
    using assms by (simp add: full_classify_def config_get_def Let_def)
  show "sublist (digits (length (split (strip text))))
           (''Text too short ('' @ digits (length (split (strip text))) @ '' words)'')"
    by (rule sublist_appendI)
qed

theorem short_text_is_uncertain_witness:
  "CONFIG (default_system 0 ''ai'' [] []) ''min_words'' = Some 30 \<and>
   of_nat (length (split (strip two_words_padded))) < (30 :: rat) \<and>
   full_classify (default_system 0 ''ai'' [] []) two_words_padded
       [HumanAI_predict two_words] =
     (Inr (Uncertain ''Text too short (2 words)''), [HumanAI_predict two_words]) \<and>
   sublist ''2'' ''Text too short (2 words)''"
  using short_text_is_uncertain [of "default_system 0 ''ai'' [] []" 30 two_words_padded
      "[HumanAI_predict two_words]"]
  by (simp add: CONFIG_default_system default_config_min_words strip_two_words_padded
      count_two_words_padded digits_2)

text \<open>
  C1 as stated fails: with the default threshold 30 and the text \<^verbatim>\<open>"a b"\<close> the reason
  is \<^verbatim>\<open>Text too short (2 words)\<close>, in which \<^verbatim>\<open>30\<close> does not occur.
\<close>

theorem short_text_reason_omits_threshold:
  "CONFIG (default_system 0 ''ai'' [] []) ''min_words'' = Some 30 \<and>
   full_classify (default_system 0 ''ai'' [] []) two_words [] =
     (Inr (Uncertain ''Text too short (2 words)''), []) \<and>
   \<not> sublist ''30'' ''Text too short (2 words)''"
proof -
  have "\<not> sublist ''30'' ''Text too short (2 words)''"
    by (simp add: sublist_Cons_right)
  moreover have "full_classify (default_system 0 ''ai'' [] []) two_words [] =
     (Inr (Uncertain ''Text too short (2 words)''), [])"
    by (simp add: full_classify_def config_get_def Let_def CONFIG_default_system
        default_config_min_words strip_two_words count_two_words digits_2)
  ultimately show ?thesis
    by (simp add: CONFIG_default_system default_config_min_words)
qed

text \<open>
  C2. When the text passes the length check, the label of the Human/AI Result is
  \<^verbatim>\<open>human\<close> and its confidence (the rounded absolute score) is at least
  \<^verbatim>\<open>CONFIG["human_confidence_threshold"]\<close>, the verdict is \<^verbatim>\<open>human\<close> with the Human/AI
  Result as payload. The trace grows by the two calls of the human/AI classifier and by
  nothing else: the attribution classifier is not invoked.
\<close>

theorem confident_human_skips_attribution:
  assumes "CONFIG sys ''min_words'' = Some min_words"
    and "\<not> of_nat (length (split (strip text))) < min_words"
    and "human_ai_decision sys (strip text) tr = (hvai, tr1)"
    and "label hvai = ''human''"
    and "CONFIG sys ''human_confidence_threshold'' = Some threshold"
    and "Finite threshold \<le> confidence hvai"
  shows "full_classify sys text tr = (Inr (Human (HvAI hvai)), tr1) \<and>
         final_label (Human (HvAI hvai)) = ''human'' \<and>
         tr1 = tr @ [HumanAI_decision_function (strip text), HumanAI_predict (strip text)] \<and>
         hvai = \<lparr>label = hvai_predict (human_ai_model sys) (strip text),
                 confidence =
                   round3 (Finite \<bar>hvai_decision_function (human_ai_model sys) (strip text)\<bar>),
                 raw_score =
                   round3 (Finite (hvai_decision_function (human_ai_model sys) (strip text)))\<rparr>"
proof -
  have "full_classify sys text tr = (Inr (Human (HvAI hvai)), tr1)"
    using assms by (simp add: full_classify_def config_get_def human_exit_def Let_def)
  moreover have "tr1 = tr @ [HumanAI_decision_function (strip text), HumanAI_predict (strip text)]"
    using assms(3) by (simp add: human_ai_decision_def Let_def)
  moreover have "hvai = \<lparr>label = hvai_predict (human_ai_model sys) (strip text),
                 confidence =
                   round3 (Finite \<bar>hvai_decision_function (human_ai_model sys) (strip text)\<bar>),
                 raw_score =
                   round3 (Finite (hvai_decision_function (human_ai_model sys) (strip text)))\<rparr>"
    using assms(3) by (simp add: human_ai_decision_def Let_def)
  ultimately show ?thesis
    by simp
qed

theorem confident_human_skips_attribution_witness:
  "CONFIG (default_system (3 / 4) ''human'' [] []) ''min_words'' = Some 30 \<and>
   \<not> of_nat (length (split (strip thirty_words))) < (30 :: rat) \<and>
   human_ai_decision (default_system (3 / 4) ''human'' [] []) (strip thirty_words) [] =
     (\<lparr>label = ''human'', confidence = Finite (3 / 4), raw_score = Finite (3 / 4)\<rparr>,
      [HumanAI_decision_function thirty_words, HumanAI_predict thirty_words]) \<and>
   CONFIG (default_system (3 / 4) ''human'' [] []) ''human_confidence_threshold'' = Some (1 / 2) \<and>
   Finite (1 / 2) \<le> Finite (3 / 4) \<and>
   full_classify (default_system (3 / 4) ''human'' [] []) thirty_words [] =
     (Inr (Human (HvAI \<lparr>label = ''human'', confidence = Finite (3 / 4),
                          raw_score = Finite (3 / 4)\<rparr>)),
      [HumanAI_decision_function thirty_words, HumanAI_predict thirty_words])"
  using confident_human_skips_attribution [of "default_system (3 / 4) ''human'' [] []" 30
      thirty_words "[]"
      "\<lparr>label = ''human'', confidence = Finite (3 / 4), raw_score = Finite (3 / 4)\<rparr>"
      "[HumanAI_decision_function thirty_words, HumanAI_predict thirty_words]" "1 / 2"]
  by (simp add: CONFIG_default_system default_config_min_words default_config_threshold
      strip_thirty_words count_thirty_words human_ai_decision_default_system
      oracles_default_system round3_values)

text \<open>
  C3. When stage 2 runs (the length check passed and the test of line 85 was false) and
  the predicted class of the Attribution Result is \<^verbatim>\<open>human_story\<close>, the verdict is
  \<^verbatim>\<open>human\<close> with the Attribution Result as payload. Nothing is assumed about the
  confidence gap, nor about \<^verbatim>\<open>CONFIG["attrib_confidence_gap"]\<close>, which is not read.
\<close>

theorem sentinel_class_is_human:
  assumes "CONFIG sys ''min_words'' = Some min_words"
    and "\<not> of_nat (length (split (strip text))) < min_words"
    and "human_ai_decision sys (strip text) tr = (hvai, tr1)"
    and "label hvai \<noteq> ''human'' \<or>
         (CONFIG sys ''human_confidence_threshold'' = Some threshold \<and>
          confidence hvai < Finite threshold)"
    and "safe_attribution sys (strip text) tr1 = (Inr attrib, tr2)"
    and "predicted_model attrib = ''human_story''"
  shows "full_classify sys text tr = (Inr (Human (Attrib attrib)), tr2) \<and>
         final_label (Human (Attrib attrib)) = ''human''"
proof -
  have "human_exit sys hvai = Inr False"
    using assms(4) by (auto simp add: human_exit_def config_get_def)
  then show ?thesis
    using assms(1,2,3,5,6)
    by (simp add: full_classify_def config_get_def stage2_def Let_def)
qed

theorem sentinel_class_is_human_witness:
  "CONFIG scenario_5 ''min_words'' = Some 30 \<and>
   \<not> of_nat (length (split (strip thirty_words))) < (30 :: rat) \<and>
   human_ai_decision scenario_5 (strip thirty_words) [] =
     (\<lparr>label = ''human'', confidence = Finite (1 / 4), raw_score = Finite (1 / 4)\<rparr>,
      stage_1_calls thirty_words) \<and>
   CONFIG scenario_5 ''human_confidence_threshold'' = Some (1 / 2) \<and>
   Finite (1 / 4) < Finite (1 / 2) \<and>
   safe_attribution scenario_5 (strip thirty_words) (stage_1_calls thirty_words) =
     (Inr attribution_5, all_calls thirty_words) \<and>
   predicted_model attribution_5 = ''human_story'' \<and>
   confidence_gap attribution_5 < Finite (binary64 (3 / 20)) \<and>
   full_classify scenario_5 thirty_words [] =
     (Inr (Human (Attrib attribution_5)), all_calls thirty_words)"
  using sentinel_class_is_human [of scenario_5 30 thirty_words "[]"
      "\<lparr>label = ''human'', confidence = Finite (1 / 4), raw_score = Finite (1 / 4)\<rparr>"
      "stage_1_calls thirty_words" "1 / 2" attribution_5 "all_calls thirty_words"]
  by (simp add: CONFIG_default_system default_config_min_words default_config_threshold
      strip_thirty_words count_thirty_words human_ai_decision_default_system
      safe_attribution_scenario_5 round3_values binary64_three_twentieths)

text \<open>
  C4. When stage 2 runs and the predicted class is not \<^verbatim>\<open>human_story\<close>: a confidence gap
  strictly below \<^verbatim>\<open>CONFIG["attrib_confidence_gap"]\<close> gives the verdict \<^verbatim>\<open>ai_uncertain\<close>
  with the Attribution Result as payload, and otherwise the verdict is \<^verbatim>\<open>ai\<close> with the
  predicted class and the Attribution Result.
\<close>

theorem attribution_gap_decides:
  assumes "CONFIG sys ''min_words'' = Some min_words"
    and "\<not> of_nat (length (split (strip text))) < min_words"
    and "human_ai_decision sys (strip text) tr = (hvai, tr1)"
    and "label hvai \<noteq> ''human'' \<or>
         (CONFIG sys ''human_confidence_threshold'' = Some threshold \<and>
          confidence hvai < Finite threshold)"
    and "safe_attribution sys (strip text) tr1 = (Inr attrib, tr2)"
    and "predicted_model attrib \<noteq> ''human_story''"
    and "CONFIG sys ''attrib_confidence_gap'' = Some gap"
  shows "full_classify sys text tr =
           (if confidence_gap attrib < Finite gap then (Inr (AI_uncertain attrib), tr2)
            else (Inr (AI (predicted_model attrib) attrib), tr2)) \<and>
         final_label (AI_uncertain attrib) = ''ai_uncertain'' \<and>
         final_label (AI (predicted_model attrib) attrib) = ''ai''"
proof -
  have "human_exit sys hvai = Inr False"
    using assms(4) by (auto simp add: human_exit_def config_get_def)
  then show ?thesis
    using assms(1,2,3,5,6,7)
    by (simp add: full_classify_def config_get_def stage2_def Let_def)
qed

theorem attribution_gap_decides_witness:
  "CONFIG scenario_3 ''min_words'' = Some 30 \<and>
   \<not> of_nat (length (split (strip thirty_words))) < (30 :: rat) \<and>
   human_ai_decision scenario_3 (strip thirty_words) [] =
     (\<lparr>label = ''ai'', confidence = Finite (3 / 4), raw_score = Finite (- (3 / 4))\<rparr>,
      stage_1_calls thirty_words) \<and>
   ''ai'' \<noteq> ''human'' \<and>
   safe_attribution scenario_3 (strip thirty_words) (stage_1_calls thirty_words) =
     (Inr attribution_3, all_calls thirty_words) \<and>
   predicted_model attribution_3 \<noteq> ''human_story'' \<and>
   CONFIG scenario_3 ''attrib_confidence_gap'' = Some (binary64 (3 / 20)) \<and>
   \<not> confidence_gap attribution_3 < Finite (binary64 (3 / 20)) \<and>
   full_classify scenario_3 thirty_words [] =
     (Inr (AI ''gpt_style'' attribution_3), all_calls thirty_words) \<and>
   safe_attribution scenario_4 (strip thirty_words) (stage_1_calls thirty_words) =
     (Inr attribution_4, all_calls thirty_words) \<and>
   confidence_gap attribution_4 < Finite (binary64 (3 / 20)) \<and>
   full_classify scenario_4 thirty_words [] =
     (Inr (AI_uncertain attribution_4), all_calls thirty_words)"
  using attribution_gap_decides [of scenario_3 30 thirty_words "[]"
      "\<lparr>label = ''ai'', confidence = Finite (3 / 4), raw_score = Finite (- (3 / 4))\<rparr>"
      "stage_1_calls thirty_words" "1 / 2" attribution_3 "all_calls thirty_words"
      "binary64 (3 / 20)"]
    attribution_gap_decides [of scenario_4 30 thirty_words "[]"
      "\<lparr>label = ''ai'', confidence = Finite (3 / 4), raw_score = Finite (- (3 / 4))\<rparr>"
      "stage_1_calls thirty_words" "1 / 2" attribution_4 "all_calls thirty_words"
      "binary64 (3 / 20)"]
  by (simp add: CONFIG_default_system default_config_min_words default_config_gap
      strip_thirty_words count_thirty_words human_ai_decision_default_system
      safe_attribution_scenario_3 safe_attribution_scenario_4 round3_values
      binary64_three_twentieths)

text \<open>
  C5. When the ranking that \<^verbatim>\<open>safe_attribution\<close> obtains has at least two entries, the
  Attribution Result is returned and its confidence gap is \<^verbatim>\<open>round(best - second, 3)\<close>, in
  doubles: the double difference of the first two scores, rounded to three decimals.
  That gap is not negative. Rounded to three decimals means: an infinity (on overflow),
  or the double quotient by 1000 of an integer that is nearest to the double product of
  the difference by 1000.
\<close>

theorem confidence_gap_rounded_nonneg:
  assumes "classify_with_confidence text (attrib_model sys) 3 tr = (ranked, tr')"
    and "2 \<le> length ranked"
  shows "safe_attribution sys text tr =
           (Inr \<lparr>predicted_model = fst (ranked ! 0),
                 confidence_gap = round3 (f64_sub (snd (ranked ! 0)) (snd (ranked ! 1))),
                 top_candidates = map (\<lambda>(m, s). (m, round3 (Finite s))) ranked\<rparr>, tr') \<and>
         Finite 0 \<le> round3 (f64_sub (snd (ranked ! 0)) (snd (ranked ! 1))) \<and>
         (round3 (f64_sub (snd (ranked ! 0)) (snd (ranked ! 1))) = PosInf \<or>
          (\<exists>k p. times_1000 (f64_sub (snd (ranked ! 0)) (snd (ranked ! 1))) = Finite p \<and>
                 \<bar>of_int k - p\<bar> \<le> 1 / 2 \<and>
                 round3 (f64_sub (snd (ranked ! 0)) (snd (ranked ! 1))) =
                   to_float64 (of_int k / 1000)))"
proof (intro conjI)
  obtain a b rest where ranked: "ranked = a # b # rest"
    using assms(2) by (cases ranked; cases "tl ranked") auto
  show "safe_attribution sys text tr =
           (Inr \<lparr>predicted_model = fst (ranked ! 0),
                 confidence_gap = round3 (f64_sub (snd (ranked ! 0)) (snd (ranked ! 1))),
                 top_candidates = map (\<lambda>(m, s). (m, round3 (Finite s))) ranked\<rparr>, tr')"
    using assms(1) ranked by (cases a; cases b) (simp add: safe_attribution_def)
  have "ranked = fst (classify_with_confidence text (attrib_model sys) 3 tr)"
    using assms(1) by simp
  then have "sorted_wrt (\<lambda>a b. snd b \<le> snd a) ranked"
    by (simp add: fst_classify_with_confidence slice_to_sorted sorted_reverse_descending)
  then have "snd (ranked ! 1) \<le> snd (ranked ! 0)"
    using assms(2) by (simp add: ranked)
  then have diff: "Finite 0 \<le> f64_sub (snd (ranked ! 0)) (snd (ranked ! 1))"
    by (rule f64_sub_nonneg)
  then show nonneg: "Finite 0 \<le> round3 (f64_sub (snd (ranked ! 0)) (snd (ranked ! 1)))"
    by (rule round3_nonneg)
  then have "round3 (f64_sub (snd (ranked ! 0)) (snd (ranked ! 1))) \<noteq> NegInf"
    by auto
  then show "round3 (f64_sub (snd (ranked ! 0)) (snd (ranked ! 1))) = PosInf \<or>
          (\<exists>k p. times_1000 (f64_sub (snd (ranked ! 0)) (snd (ranked ! 1))) = Finite p \<and>
                 \<bar>of_int k - p\<bar> \<le> 1 / 2 \<and>
                 round3 (f64_sub (snd (ranked ! 0)) (snd (ranked ! 1))) =
                   to_float64 (of_int k / 1000))"
    using round3_three_decimals [of "f64_sub (snd (ranked ! 0)) (snd (ranked ! 1))"]
    by blast
qed

text \<open>
  The witness: the scores 2 and 1.8504 differ by the double 0.14959999999999996, whose
  product by 1000 is the double 149.59999999999997; the nearest integer is 150, and the
  gap is the double 0.15, not the difference itself.
\<close>

theorem confidence_gap_rounded_nonneg_witness:
  "classify_with_confidence thirty_words (attrib_model scenario_near) 3 [] =
     ([(''gpt_style'', 2), (''llama_style'', binary64 (2313 / 1250)), (''human_story'', 1)],
      [Attrib_decision_function thirty_words]) \<and>
   (2 :: nat) \<le> length
     [(''gpt_style'', 2 :: rat), (''llama_style'', binary64 (2313 / 1250)), (''human_story'', 1)] \<and>
   safe_attribution scenario_near thirty_words [] =
     (Inr attribution_near, [Attrib_decision_function thirty_words]) \<and>
   f64_sub 2 (binary64 (2313 / 1250)) = Finite (336869252127313 / 2251799813685248) \<and>
   times_1000 (f64_sub 2 (binary64 (2313 / 1250))) = Finite (2631791032244633 / 17592186044416) \<and>
   \<bar>of_int 150 - 2631791032244633 / 17592186044416 :: rat\<bar> \<le> 1 / 2 \<and>
   round3 (f64_sub 2 (binary64 (2313 / 1250))) = to_float64 (of_int 150 / 1000) \<and>
   round3 (f64_sub 2 (binary64 (2313 / 1250))) = Finite (binary64 (3 / 20)) \<and>
   round3 (f64_sub 2 (binary64 (2313 / 1250))) \<noteq> f64_sub 2 (binary64 (2313 / 1250)) \<and>
   Finite 0 \<le> round3 (f64_sub 2 (binary64 (2313 / 1250)))"
proof -
  have "binary64 (42108656515914125 / 281474976710656) = 2631791032244633 / 17592186044416"
    by code_simp
  then have product: "to_float64 (42108656515914125 / 281474976710656) =
      Finite (2631791032244633 / 17592186044416)"
    by (simp add: to_float64_finite)
  have quotient: "to_float64 (3 / 20) = Finite (5404319552844595 / 36028797018963968)"
    by (simp add: to_float64_finite binary64_three_twentieths)
  show ?thesis
    using confidence_gap_rounded_nonneg [of thirty_words scenario_near "[]"
        "[(''gpt_style'', 2), (''llama_style'', binary64 (2313 / 1250)), (''human_story'', 1)]"
        "[Attrib_decision_function thirty_words]"]
    by (simp add: classify_with_confidence_scenario_near safe_attribution_scenario_near
        f64_sub_near round3_near_gap product quotient binary64_three_twentieths)
qed

text \<open>
  C6. The list that \<^verbatim>\<open>classify_with_confidence\<close> returns is in descending score order, and
  two of its entries with equal scores stand in it in the order in which their classes
  stand in \<^verbatim>\<open>zip(classes, scores)\<close>, the classifier's own class order.
\<close>

theorem ranking_descending_ties_in_class_order:
  "sorted_wrt (\<lambda>a b. snd b \<le> snd a) (fst (classify_with_confidence text model top_k tr)) \<and>
   (i < j \<and> j < length (fst (classify_with_confidence text model top_k tr)) \<and>
    snd (fst (classify_with_confidence text model top_k tr) ! i) =
      snd (fst (classify_with_confidence text model top_k tr) ! j) \<longrightarrow>
    subseq [fst (classify_with_confidence text model top_k tr) ! i,
            fst (classify_with_confidence text model top_k tr) ! j]
      (zip (attrib_classes model) (attrib_decision_function model text)))"
proof (intro conjI impI)
  show "sorted_wrt (\<lambda>a b. snd b \<le> snd a) (fst (classify_with_confidence text model top_k tr))"
    by (simp add: fst_classify_with_confidence slice_to_sorted sorted_reverse_descending)
next
  let ?ranked = "fst (classify_with_confidence text model top_k tr)"
  let ?enum = "zip (attrib_classes model) (attrib_decision_function model text)"
  assume h: "i < j \<and> j < length ?ranked \<and> snd (?ranked ! i) = snd (?ranked ! j)"
  have "prefix ?ranked (sorted_reverse snd ?enum)"
    by (simp add: fst_classify_with_confidence slice_to_prefix)
  then show "subseq [?ranked ! i, ?ranked ! j] ?enum"
    using h by (intro ties_keep_order [where k = snd]) simp_all
qed

lemma sorted_reverse_tie:
  "sorted_reverse snd [(''a'', 1 :: rat), (''b'', 2), (''c'', 3 / 2), (''d'', 2)] =
     [(''b'', 2), (''d'', 2), (''c'', 3 / 2), (''a'', 1)]"
  by code_simp

lemma classify_with_confidence_tie:
  "classify_with_confidence text (const_attrib [''a'', ''b'', ''c'', ''d''] [1, 2, 3 / 2, 2]) 3 tr =
     ([(''b'', 2), (''d'', 2), (''c'', 3 / 2)], tr @ [Attrib_decision_function text])"
  by (simp add: classify_with_confidence_def const_attrib_def slice_to_def sorted_reverse_tie)

theorem ranking_descending_ties_in_class_order_witness:
  "fst (classify_with_confidence two_words
          (const_attrib [''a'', ''b'', ''c'', ''d''] [1, 2, 3 / 2, 2]) 3 []) =
     [(''b'', 2), (''d'', 2), (''c'', 3 / 2)] \<and>
   (0 :: nat) < 1 \<and> (1 :: nat) < length [(''b'', 2 :: rat), (''d'', 2), (''c'', 3 / 2)] \<and>
   sorted_wrt (\<lambda>a b. snd b \<le> snd a) [(''b'', 2 :: rat), (''d'', 2), (''c'', 3 / 2)] \<and>
   subseq [(''b'', 2 :: rat), (''d'', 2)] [(''a'', 1), (''b'', 2), (''c'', 3 / 2), (''d'', 2)]"
  using ranking_descending_ties_in_class_order [of two_words
      "const_attrib [''a'', ''b'', ''c'', ''d''] [1, 2, 3 / 2, 2]" 3 "[]" 0 1]
  by (simp add: classify_with_confidence_tie)

text \<open>
  C7 (as amended). With one score per class, the list that \<^verbatim>\<open>classify_with_confidence\<close>
  returns for \<^verbatim>\<open>top_k = 3\<close> has as many entries as there are classes, but at most three,
  and is not empty when there is a class; the \<^verbatim>\<open>top_candidates\<close> of an Attribution Result
  have that length too.
\<close>

theorem ranking_length_at_most_three:
  assumes "length (attrib_decision_function (attrib_model sys) text) =
           length (attrib_classes (attrib_model sys))"
  shows "length (fst (classify_with_confidence text (attrib_model sys) 3 tr)) =
           min 3 (length (attrib_classes (attrib_model sys))) \<and>
         (attrib_classes (attrib_model sys) \<noteq> [] \<longrightarrow>
            fst (classify_with_confidence text (attrib_model sys) 3 tr) \<noteq> []) \<and>
         (fst (safe_attribution sys text tr) = Inr attrib \<longrightarrow>
            length (top_candidates attrib) = min 3 (length (attrib_classes (attrib_model sys))))"
proof (intro conjI impI)
  show len: "length (fst (classify_with_confidence text (attrib_model sys) 3 tr)) =
           min 3 (length (attrib_classes (attrib_model sys)))"
    using assms
    by (simp add: fst_classify_with_confidence length_slice_to_3 length_sorted_reverse)
  show "fst (classify_with_confidence text (attrib_model sys) 3 tr) \<noteq> []"
    if "attrib_classes (attrib_model sys) \<noteq> []"
  proof -
    have "0 < length (fst (classify_with_confidence text (attrib_model sys) 3 tr))"
      using that by (simp add: len)
    then show ?thesis by simp
  qed
  show "length (top_candidates attrib) = min 3 (length (attrib_classes (attrib_model sys)))"
    if "fst (safe_attribution sys text tr) = Inr attrib"
  proof -
    have "top_candidates attrib =
            map (\<lambda>(m, s). (m, round3 (Finite s))) (fst (classify_with_confidence text (attrib_model sys) 3 tr))"
      using that
      by (auto simp add: safe_attribution_def split: prod.splits list.splits)
    then show ?thesis
      by (simp add: len)
  qed
qed

theorem ranking_length_at_most_three_witness:
  "length (attrib_decision_function (attrib_model scenario_4) thirty_words) =
     length (attrib_classes (attrib_model scenario_4)) \<and>
   length (fst (classify_with_confidence thirty_words (attrib_model scenario_4) 3 [])) = 3 \<and>
   attrib_classes (attrib_model scenario_4) \<noteq> [] \<and>
   fst (classify_with_confidence thirty_words (attrib_model scenario_4) 3 []) \<noteq> [] \<and>
   fst (safe_attribution scenario_4 thirty_words []) = Inr attribution_4 \<and>
   length (top_candidates attribution_4) = 3"
  using ranking_length_at_most_three [of scenario_4 thirty_words "[]" attribution_4]
  by (simp add: safe_attribution_scenario_4) (simp add: default_system_def const_attrib_def)

text \<open>
  C7 as stated fails: for a classifier with four classes the list has three entries.
\<close>

theorem ranking_shorter_than_class_count:
  "length (attrib_classes (const_attrib [''a'', ''b'', ''c'', ''d''] [1, 2, 3 / 2, 2])) = 4 \<and>
   length (fst (classify_with_confidence two_words
                  (const_attrib [''a'', ''b'', ''c'', ''d''] [1, 2, 3 / 2, 2]) 3 [])) = 3 \<and>
   length (fst (classify_with_confidence two_words
                  (const_attrib [''a'', ''b'', ''c'', ''d''] [1, 2, 3 / 2, 2]) 3 [])) \<noteq>
     length (attrib_classes (const_attrib [''a'', ''b'', ''c'', ''d''] [1, 2, 3 / 2, 2]))"
  by (simp add: classify_with_confidence_tie) (simp add: const_attrib_def)

lemma short_list_cases: "length xs < 2 \<Longrightarrow> xs = [] \<or> (\<exists>x. xs = [x])"
  by (cases xs; cases "tl xs") auto

text \<open>
  C8 (as amended). The import-time code does not look at the classes of the attribution
  classifier: the start fails exactly when the configuration load fails. With fewer than
  two classes, \<^verbatim>\<open>safe_attribution\<close> invokes the classifier and then raises \<^verbatim>\<open>IndexError\<close>,
  so every request that reaches stage 2 fails, one by one, and no confidence gap is
  computed.
\<close>

theorem fewer_than_two_classes_fails_per_request:
  assumes "length (attrib_classes (attrib_model sys)) < 2"
    and "CONFIG sys ''min_words'' = Some min_words"
    and "\<not> of_nat (length (split (strip text))) < min_words"
    and "human_ai_decision sys (strip text) tr = (hvai, tr1)"
    and "label hvai \<noteq> ''human'' \<or>
         (CONFIG sys ''human_confidence_threshold'' = Some threshold \<and>
          confidence hvai < Finite threshold)"
  shows "(startup hm (attrib_model sys) r = Inl e) = (load_config r = Inl e) \<and>
         safe_attribution sys text' tr' = (Inl IndexError, tr' @ [Attrib_decision_function text']) \<and>
         full_classify sys text tr = (Inl IndexError, tr1 @ [Attrib_decision_function (strip text)])"
proof (intro conjI)
  show "(startup hm (attrib_model sys) r = Inl e) = (load_config r = Inl e)"
    by (simp add: startup_def split: sum.splits)
  have "length (fst (classify_with_confidence t (attrib_model sys) 3 u)) < 2" for t u
    using assms(1)
    by (simp add: fst_classify_with_confidence length_slice_to_3 length_sorted_reverse)
  then have short: "fst (classify_with_confidence t (attrib_model sys) 3 u) = [] \<or>
      (\<exists>x. fst (classify_with_confidence t (attrib_model sys) 3 u) = [x])" for t u
    by (rule short_list_cases)
  show sa: "safe_attribution sys t u = (Inl IndexError, u @ [Attrib_decision_function t])" for t u
    using short [of t u] snd_classify_with_confidence [of t "attrib_model sys" 3 u]
    by (auto simp add: safe_attribution_def split: prod.splits list.splits)
  have "human_exit sys hvai = Inr False"
    using assms(5) by (auto simp add: human_exit_def config_get_def)
  then show "full_classify sys text tr = (Inl IndexError, tr1 @ [Attrib_decision_function (strip text)])"
    using assms(2,3,4) sa [of "strip text" tr1]
    by (simp add: full_classify_def config_get_def stage2_def Let_def)
qed

theorem fewer_than_two_classes_fails_per_request_witness:
  "length (attrib_classes (attrib_model (default_system (- (3 / 4)) ''ai'' [''gpt_style''] [2]))) < 2 \<and>
   CONFIG (default_system (- (3 / 4)) ''ai'' [''gpt_style''] [2]) ''min_words'' = Some 30 \<and>
   \<not> of_nat (length (split (strip thirty_words))) < (30 :: rat) \<and>
   human_ai_decision (default_system (- (3 / 4)) ''ai'' [''gpt_style''] [2]) (strip thirty_words) [] =
     (\<lparr>label = ''ai'', confidence = Finite (3 / 4), raw_score = Finite (- (3 / 4))\<rparr>,
      stage_1_calls thirty_words) \<and>
   ''ai'' \<noteq> ''human'' \<and>
   startup (const_human_ai (- (3 / 4)) ''ai'') (const_attrib [''gpt_style''] [2]) Missing \<noteq>
     Inl OSError \<and>
   safe_attribution (default_system (- (3 / 4)) ''ai'' [''gpt_style''] [2]) two_words [] =
     (Inl IndexError, [Attrib_decision_function two_words]) \<and>
   full_classify (default_system (- (3 / 4)) ''ai'' [''gpt_style''] [2]) thirty_words [] =
     (Inl IndexError, all_calls thirty_words)"
  using fewer_than_two_classes_fails_per_request
    [of "default_system (- (3 / 4)) ''ai'' [''gpt_style''] [2]" 30 thirty_words "[]"
      "\<lparr>label = ''ai'', confidence = Finite (3 / 4), raw_score = Finite (- (3 / 4))\<rparr>"
      "stage_1_calls thirty_words" "1 / 2" "const_human_ai (- (3 / 4)) ''ai''" Missing OSError
      two_words "[]"]
  by (simp add: CONFIG_default_system default_config_min_words strip_thirty_words
      count_thirty_words human_ai_decision_default_system round3_values)
    (simp add: default_system_def const_attrib_def load_config_def)

text \<open>
  C8 as stated fails: with an attribution classifier of one class and no configuration
  file the program starts, answers a short text, and fails on a long text of stage 2
  with \<^verbatim>\<open>IndexError\<close>, a failure of that request.
\<close>

theorem one_class_oracle_starts_and_serves:
  "length (attrib_classes (const_attrib [''gpt_style''] [2])) < 2 \<and>
   app (const_human_ai (- (3 / 4)) ''ai'') (const_attrib [''gpt_style''] [2]) Missing
       [two_words, thirty_words] =
     Inr [Inr (Uncertain ''Text too short (2 words)''), Inl IndexError]"
proof -
  have sorted1: "sorted_reverse snd [(''gpt_style'', 2 :: rat)] = [(''gpt_style'', 2)]"
    by (simp add: sorted_reverse_def)
  have start: "startup (const_human_ai (- (3 / 4)) ''ai'') (const_attrib [''gpt_style''] [2]) Missing =
      Inr (default_system (- (3 / 4)) ''ai'' [''gpt_style''] [2])"
    by (simp add: startup_def load_config_def default_system_def)
  have short: "fst (full_classify (default_system (- (3 / 4)) ''ai'' [''gpt_style''] [2]) two_words []) =
      Inr (Uncertain ''Text too short (2 words)'')"
    by (simp add: full_classify_def config_get_def Let_def CONFIG_default_system
        default_config_min_words strip_two_words count_two_words digits_2)
  have "safe_attribution (default_system (- (3 / 4)) ''ai'' [''gpt_style''] [2]) t u =
      (Inl IndexError, u @ [Attrib_decision_function t])" for t u
    by (simp add: safe_attribution_def classify_with_confidence_def default_system_def
        const_attrib_def slice_to_def sorted1)
  then have long: "fst (full_classify (default_system (- (3 / 4)) ''ai'' [''gpt_style''] [2]) thirty_words []) =
      Inl IndexError"
    by (simp add: full_classify_def config_get_def Let_def CONFIG_default_system
        default_config_min_words strip_thirty_words count_thirty_words
        human_ai_decision_default_system human_exit_def stage2_def)
  show ?thesis
    by (simp add: app_def start short long) (simp add: const_attrib_def)
qed

text \<open>
  C9 (as amended). When \<^verbatim>\<open>os.path.exists\<close> reports no configuration file, the load gives
  the built-in defaults: 30 words, 0.5 and 0.15 (the doubles of these literals). When the file exists and cannot be
  opened, or opens and is not JSON, the import-time code raises: the program does not
  start and answers no request.
\<close>

theorem config_load_outcomes:
  "load_config Missing = Inr default_config \<and>
   default_config ''min_words'' = Some 30 \<and>
   default_config ''human_confidence_threshold'' = Some (1 / 2) \<and>
   default_config ''attrib_confidence_gap'' = Some (binary64 (3 / 20)) \<and>
   binary64 (3 / 20) = 5404319552844595 / 36028797018963968 \<and>
   dom default_config = {''min_words'', ''human_confidence_threshold'', ''attrib_confidence_gap''} \<and>
   load_config OpenFails = Inl OSError \<and>
   load_config ParseFails = Inl JSONDecodeError \<and>
   app hm am OpenFails requests = Inl OSError \<and>
   app hm am ParseFails requests = Inl JSONDecodeError"
proof -
  have "dom default_config = {''min_words'', ''human_confidence_threshold'', ''attrib_confidence_gap''}"
    unfolding default_config_def by (simp add: insert_commute)
  then show ?thesis
    by (simp add: load_config_def app_def startup_def default_config_min_words
        default_config_threshold default_config_gap binary64_three_twentieths)
qed

text \<open>
  C9 as stated fails: a configuration file that exists and cannot be opened does not
  give the defaults; the load raises and the program does not start.
\<close>

theorem unreadable_config_is_fatal:
  "load_config OpenFails \<noteq> Inr default_config \<and>
   app (const_human_ai (3 / 4) ''human'') (const_attrib [] []) OpenFails [two_words] = Inl OSError"
  by (simp add: load_config_def app_def startup_def)

lemma stage_1_compares_rounded:
  assumes "CONFIG sys ''min_words'' = Some min_words"
    and "\<not> of_nat (length (split (strip text))) < min_words"
    and "hvai_predict (human_ai_model sys) (strip text) = ''human''"
    and "CONFIG sys ''human_confidence_threshold'' = Some threshold"
  shows "full_classify sys text tr =
           (if Finite threshold \<le>
                 round3 (Finite \<bar>hvai_decision_function (human_ai_model sys) (strip text)\<bar>)
            then (Inr (Human (HvAI (fst (human_ai_decision sys (strip text) tr)))),
                  tr @ stage_1_calls (strip text))
            else stage2 sys (strip text) (tr @ stage_1_calls (strip text)))"
  using assms
  by (simp add: full_classify_def config_get_def human_exit_def human_ai_decision_def Let_def)

lemma stage_2_compares_rounded:
  assumes "classify_with_confidence text (attrib_model sys) 3 tr = (ranked, tr')"
    and "safe_attribution sys text tr = (Inr attrib, tr')"
    and "predicted_model attrib \<noteq> ''human_story''"
    and "CONFIG sys ''attrib_confidence_gap'' = Some gap"
  shows "stage2 sys text tr =
           (if round3 (f64_sub (snd (ranked ! 0)) (snd (ranked ! 1))) < Finite gap
            then (Inr (AI_uncertain attrib), tr')
            else (Inr (AI (predicted_model attrib) attrib), tr'))"
proof -
  have "confidence_gap attrib = round3 (f64_sub (snd (ranked ! 0)) (snd (ranked ! 1)))"
    using assms(1,2) by (auto simp add: safe_attribution_def split: list.splits)
  then show ?thesis
    using assms(2,3,4) by (simp add: stage2_def config_get_def)
qed

text \<open>
  C10. Both tests are made on rounded values. After the length check and with the label
  \<^verbatim>\<open>human\<close>, \<^verbatim>\<open>full_classify\<close> leaves at stage 1 exactly when the threshold is at most
  \<^verbatim>\<open>round(abs(score), 3)\<close>. In stage 2, with a predicted class other than \<^verbatim>\<open>human_story\<close>,
  the verdict is \<^verbatim>\<open>ai_uncertain\<close> exactly when \<^verbatim>\<open>round(best - second, 3)\<close> is below the gap
  threshold. So the raw scores 0.4996 and 0.4995 (as doubles), below the threshold 0.5,
  pass the test of stage 1 as 0.5; and the raw gaps 2 - 1.8504 and 0.1495, below the
  threshold 0.15, are not below it once rounded to 0.15.
\<close>

theorem guardrails_compare_rounded_values:
  "(CONFIG sys ''min_words'' = Some min_words \<and>
    \<not> of_nat (length (split (strip text))) < min_words \<and>
    hvai_predict (human_ai_model sys) (strip text) = ''human'' \<and>
    CONFIG sys ''human_confidence_threshold'' = Some threshold \<longrightarrow>
    full_classify sys text tr =
      (if Finite threshold \<le>
            round3 (Finite \<bar>hvai_decision_function (human_ai_model sys) (strip text)\<bar>)
       then (Inr (Human (HvAI (fst (human_ai_decision sys (strip text) tr)))),
             tr @ stage_1_calls (strip text))
       else stage2 sys (strip text) (tr @ stage_1_calls (strip text)))) \<and>
   (classify_with_confidence text2 (attrib_model sys2) 3 tr2 = (ranked, tr2') \<and>
    safe_attribution sys2 text2 tr2 = (Inr attrib, tr2') \<and>
    predicted_model attrib \<noteq> ''human_story'' \<and>
    CONFIG sys2 ''attrib_confidence_gap'' = Some gap \<longrightarrow>
    stage2 sys2 text2 tr2 =
      (if round3 (f64_sub (snd (ranked ! 0)) (snd (ranked ! 1))) < Finite gap
       then (Inr (AI_uncertain attrib), tr2')
       else (Inr (AI (predicted_model attrib) attrib), tr2'))) \<and>
   \<bar>binary64 (1249 / 2500)\<bar> < binary64 (1 / 2) \<and>
   Finite (binary64 (1 / 2)) \<le> round3 (Finite \<bar>binary64 (1249 / 2500)\<bar>) \<and>
   \<bar>binary64 (999 / 2000)\<bar> < binary64 (1 / 2) \<and>
   Finite (binary64 (1 / 2)) \<le> round3 (Finite \<bar>binary64 (999 / 2000)\<bar>) \<and>
   f64_sub 2 (binary64 (2313 / 1250)) < Finite (binary64 (3 / 20)) \<and>
   \<not> round3 (f64_sub 2 (binary64 (2313 / 1250))) < Finite (binary64 (3 / 20)) \<and>
   Finite (binary64 (299 / 2000)) < Finite (binary64 (3 / 20)) \<and>
   \<not> round3 (Finite (binary64 (299 / 2000))) < Finite (binary64 (3 / 20))"
proof (intro conjI impI)
  show "\<bar>binary64 (1249 / 2500)\<bar> < binary64 (1 / 2)"
    by (simp add: binary64_literals binary64_values)
  show "Finite (binary64 (1 / 2)) \<le> round3 (Finite \<bar>binary64 (1249 / 2500)\<bar>)"
    by (simp add: round3_4996 binary64_values)
  show "\<bar>binary64 (999 / 2000)\<bar> < binary64 (1 / 2)"
    by (simp add: binary64_literals binary64_values)
  show "Finite (binary64 (1 / 2)) \<le> round3 (Finite \<bar>binary64 (999 / 2000)\<bar>)"
    by (simp add: round3_4995 binary64_values)
  show "f64_sub 2 (binary64 (2313 / 1250)) < Finite (binary64 (3 / 20))"
    by (simp add: f64_sub_near binary64_three_twentieths)
  show "\<not> round3 (f64_sub 2 (binary64 (2313 / 1250))) < Finite (binary64 (3 / 20))"
    by (simp add: f64_sub_near round3_near_gap)
  show "Finite (binary64 (299 / 2000)) < Finite (binary64 (3 / 20))"
    by (simp add: binary64_literals binary64_three_twentieths)
  show "\<not> round3 (Finite (binary64 (299 / 2000))) < Finite (binary64 (3 / 20))"
    by (simp add: round3_1495)
qed (simp_all add: stage_1_compares_rounded stage_2_compares_rounded)

text \<open>
  The witness: a run that leaves at stage 1 on the raw score 0.4996 with the threshold
  0.5, and a run of stage 2 with the scores 2 and 1.8504 and the threshold 0.15 that
  names the model.
\<close>

theorem guardrails_compare_rounded_values_witness:
  "CONFIG (default_system (binary64 (1249 / 2500)) ''human'' [] []) ''min_words'' = Some 30 \<and>
   \<not> of_nat (length (split (strip thirty_words))) < (30 :: rat) \<and>
   hvai_predict (human_ai_model (default_system (binary64 (1249 / 2500)) ''human'' [] []))
     (strip thirty_words) = ''human'' \<and>
   CONFIG (default_system (binary64 (1249 / 2500)) ''human'' [] [])
     ''human_confidence_threshold'' = Some (1 / 2) \<and>
   \<bar>binary64 (1249 / 2500)\<bar> < 1 / 2 \<and>
   full_classify (default_system (binary64 (1249 / 2500)) ''human'' [] []) thirty_words [] =
     (Inr (Human (HvAI \<lparr>label = ''human'', confidence = Finite (1 / 2),
                          raw_score = Finite (1 / 2)\<rparr>)),
      stage_1_calls thirty_words) \<and>
   classify_with_confidence thirty_words (attrib_model scenario_near) 3 [] =
     ([(''gpt_style'', 2), (''llama_style'', binary64 (2313 / 1250)), (''human_story'', 1)],
      [Attrib_decision_function thirty_words]) \<and>
   safe_attribution scenario_near thirty_words [] =
     (Inr attribution_near, [Attrib_decision_function thirty_words]) \<and>
   predicted_model attribution_near \<noteq> ''human_story'' \<and>
   CONFIG scenario_near ''attrib_confidence_gap'' = Some (binary64 (3 / 20)) \<and>
   f64_sub 2 (binary64 (2313 / 1250)) < Finite (binary64 (3 / 20)) \<and>
   stage2 scenario_near thirty_words [] =
     (Inr (AI ''gpt_style'' attribution_near), [Attrib_decision_function thirty_words])"
  using guardrails_compare_rounded_values
    [of "default_system (binary64 (1249 / 2500)) ''human'' [] []" 30 thirty_words "1 / 2" "[]"
      thirty_words scenario_near "[]"
      "[(''gpt_style'', 2), (''llama_style'', binary64 (2313 / 1250)), (''human_story'', 1)]"
      "[Attrib_decision_function thirty_words]" attribution_near "binary64 (3 / 20)"]
  by (simp add: CONFIG_default_system default_config_min_words default_config_threshold
      default_config_gap strip_thirty_words count_thirty_words
      human_ai_decision_default_system classify_with_confidence_scenario_near
      safe_attribution_scenario_near round3_4996 round3_near_gap f64_sub_near
      oracles_default_system binary64_values)

end
